theory Spec2Isabelle
  imports Main
begin

section \<open>Data model (src/models/QRCode.js)\<close>

text \<open>
  A QR code document of the \<open>QRCode\<close> collection. The collection has a unique index on
  \<open>code\<close>, so the collection is a map from the code to the rest of the document and
  \<open>findOne({ code })\<close> is the lookup in that map. Times are milliseconds since the epoch
  (\<open>Date.now()\<close>, \<open>new Date()\<close>); every reading of the clock is an explicit argument.
  The timestamps that Mongoose maintains by itself (\<open>createdAt\<close>, \<open>updatedAt\<close>) and
  the image buffer are not part of the model; \<open>save()\<close> and the update calls are taken
  to succeed (schema validation and store failures are outside the model).
\<close>

type_synonym code = string
type_synonym time = int
type_synonym user_id = nat

datatype jsval =
    Null
  | Str string
  | Num int
  | Bool bool
  | Date time
  | Obj "(string \<times> jsval) list"

text \<open>JavaScript truthiness of a possibly absent value (\<open>x || fallback\<close>, \<open>if (x)\<close>).\<close>

fun truthy :: "jsval option \<Rightarrow> bool" where
  "truthy None = False"
| "truthy (Some Null) = False"
| "truthy (Some (Str s)) = (s \<noteq> [])"
| "truthy (Some (Num n)) = (n \<noteq> 0)"
| "truthy (Some (Bool b)) = b"
| "truthy (Some (Date t)) = True"
| "truthy (Some (Obj kvs)) = True"

datatype kind = Item | Pet

datatype status = Active | Inactive | Suspended | Found

datatype details_field =
    D_name | D_description | D_category | D_color | D_brand | D_model | D_serialNumber
  | D_image | D_emergencyDetails | D_pedigreeInfo | D_microchipId
  | D_medicalNotes | D_vetName | D_vetPhone | D_vetCountryCode
  | D_emergencyContact | D_emergencyCountryCode
  | D_breed | D_age | D_registrationNumber | D_breederInfo
  | D_value | D_purchaseDate | D_warrantyExpiry

datatype contact_field =
    C_name | C_phone | C_backupPhone | C_countryCode | C_email | C_message | C_location

datatype settings_field =
    S_instantAlerts | S_locationSharing | S_showContactOnFinderPage

type_synonym details = "details_field \<rightharpoonup> jsval"
type_synonym contact = "contact_field \<rightharpoonup> jsval"
type_synonym settings = "settings_field \<rightharpoonup> jsval"

record scan_event =
  scannedAt :: time
  se_ipAddress :: string
  se_userAgent :: string
  se_location :: string

record found_by =
  finderName :: "string option"
  finderPhone :: "string option"
  finderEmail :: "string option"
  foundDate :: time
  foundLocation :: "string option"
  fb_notes :: "string option"

record otp_state =
  otp_code :: "string option"
  otp_expires :: "time option"
  otp_newEmail :: "string option"
  otp_newPhone :: "string option"

record qr_record =
  oid :: nat
  qtype :: kind
  owner :: "user_id option"
  details :: details
  contact :: contact
  settings :: settings
  status :: status
  isActivated :: bool
  activationDate :: "time option"
  lastScanned :: "time option"
  scanCount :: nat
  foundBy :: "found_by option"
  qrImageUrl :: "string option"
  meta_userAgent :: "string option"
  meta_ipAddress :: "string option"
  scanHistory :: "scan_event list"
  updateOTP :: "otp_state option"

subsection \<open>Document methods\<close>

text \<open>\<open>x || 'unknown'\<close> on a possibly absent string: the empty string is falsy too.\<close>

definition orUnknown :: "string option \<Rightarrow> string" where
  "orUnknown x = (case x of None \<Rightarrow> ''unknown'' | Some s \<Rightarrow> if s = [] then ''unknown'' else s)"

text \<open>
  \<open>incrementScanCount(ipAddress, userAgent, location)\<close>. The method reads the clock twice
  (\<open>lastScanned\<close>, then \<open>scannedAt\<close>); \<open>slice(-50)\<close> keeps the last 50 elements.
  \<open>scanCount\<close> is a JavaScript number that only ever counts up from 0 by 1; it is a
  natural number here.
\<close>

definition incrementScanCount ::
  "string option \<Rightarrow> string option \<Rightarrow> string option \<Rightarrow> time \<Rightarrow> time \<Rightarrow> qr_record \<Rightarrow> qr_record" where
  "incrementScanCount ip ua loc t1 t2 r =
     (let h = scanHistory r @
                [\<lparr>scannedAt = t2, se_ipAddress = orUnknown ip,
                  se_userAgent = orUnknown ua, se_location = orUnknown loc\<rparr>]
      in r\<lparr>scanCount := scanCount r + 1,
           lastScanned := Some t1,
           scanHistory := (if length h > 50 then drop (length h - 50) h else h)\<rparr>)"

record finder_details =
  fd_name :: "string option"
  fd_phone :: "string option"
  fd_email :: "string option"
  fd_location :: "string option"
  fd_notes :: "string option"

definition markAsFound :: "finder_details \<Rightarrow> time \<Rightarrow> qr_record \<Rightarrow> qr_record" where
  "markAsFound fd now r =
     r\<lparr>status := Found,
       foundBy := Some \<lparr>finderName = fd_name fd, finderPhone = fd_phone fd,
                        finderEmail = fd_email fd, foundDate = now,
                        foundLocation = fd_location fd, fb_notes = fd_notes fd\<rparr>\<rparr>"

text \<open>One scan request as the document method receives it, with its two clock readings.\<close>

record scan_call =
  sc_ip :: "string option"
  sc_ua :: "string option"
  sc_loc :: "string option"
  sc_t1 :: time
  sc_t2 :: time

definition scanOnce :: "qr_record \<Rightarrow> scan_call \<Rightarrow> qr_record" where
  "scanOnce r s = incrementScanCount (sc_ip s) (sc_ua s) (sc_loc s) (sc_t1 s) (sc_t2 s) r"

text \<open>Any number of scans, one after the other, on the same document.\<close>

definition scanMany :: "qr_record \<Rightarrow> scan_call list \<Rightarrow> qr_record" where
  "scanMany r ss = foldl scanOnce r ss"

definition newEntry :: "scan_call \<Rightarrow> scan_event" where
  "newEntry s = \<lparr>scannedAt = sc_t2 s, se_ipAddress = orUnknown (sc_ip s),
                 se_userAgent = orUnknown (sc_ua s), se_location = orUnknown (sc_loc s)\<rparr>"

section \<open>The service (services/qrService.js)\<close>

text \<open>
  A thrown \<open>Error\<close> is a value of \<open>error\<close>. Every service method catches what its
  body throws and throws \<open>new Error(`<prefix>: ${error.message}`)\<close>: that is
  \<open>Failed prefix cause\<close>. \<open>TypeError\<close> is a property read on \<open>undefined\<close>.
\<close>

datatype error =
    QRCodeNotFound
  | AlreadyActivated
  | NotActivated
  | AlreadyFound
  | TypeError
  | Failed string error

text \<open>
  The document that \<open>fetchQRCodeFromDatabase\<close> asks the store for: the projection lists
  these paths and nothing else (\<open>_id\<close> comes with every projection).
\<close>

record qr_public =
  p_oid :: nat
  p_code :: code
  p_type :: kind
  p_isActivated :: bool
  p_status :: status
  p_details :: details
  p_contact :: contact
  p_settings :: settings

definition publicDetails :: "details_field set" where
  "publicDetails =
     {D_name, D_description, D_image, D_category, D_color, D_brand, D_model,
      D_emergencyDetails, D_pedigreeInfo, D_microchipId,
      D_medicalNotes, D_vetName, D_vetPhone, D_vetCountryCode,
      D_emergencyContact, D_emergencyCountryCode,
      D_breed, D_age, D_registrationNumber, D_breederInfo}"

definition publicContact :: "contact_field set" where
  "publicContact = {C_name, C_phone, C_email, C_message}"

definition publicSettings :: "settings_field set" where
  "publicSettings = {S_instantAlerts, S_locationSharing, S_showContactOnFinderPage}"

definition projectPublic :: "code \<Rightarrow> qr_record \<Rightarrow> qr_public" where
  "projectPublic c r =
     \<lparr>p_oid = oid r, p_code = c, p_type = qtype r,
      p_isActivated = isActivated r, p_status = status r,
      p_details = details r |` publicDetails,
      p_contact = contact r |` publicContact,
      p_settings = settings r |` publicSettings\<rparr>"

record cache_entry =
  ce_data :: qr_public
  ce_timestamp :: time

type_synonym caller = nat

text \<open>
  The state the service works on: the two collections, the module-level \<open>qrCache\<close> and
  \<open>requestQueue\<close>, and a log of the \<open>findOne\<close> queries that
  \<open>fetchQRCodeFromDatabase\<close> has sent to the store. A promise in \<open>requestQueue\<close> is
  the list of the calls that await it, in the order in which they started to wait.
\<close>

record service_state =
  db :: "code \<rightharpoonup> qr_record"
  users :: "string \<rightharpoonup> user_id"
  qrCache :: "string \<rightharpoonup> cache_entry"
  requestQueue :: "code \<rightharpoonup> caller list"
  storeQueries :: "code list"

definition CACHE_TTL :: int where
  "CACHE_TTL = 10 * 60 * 1000"

definition cacheKey :: "code \<Rightarrow> string" where
  "cacheKey c = ''qr_'' @ c"

definition cleanupCache :: "time \<Rightarrow> (string \<rightharpoonup> cache_entry) \<Rightarrow> (string \<rightharpoonup> cache_entry)" where
  "cleanupCache now cache =
     (\<lambda>k. case cache k of
            None \<Rightarrow> None
          | Some e \<Rightarrow> if now - ce_timestamp e > CACHE_TTL then None else Some e)"

subsection \<open>The public lookup\<close>

text \<open>
  The lookup is asynchronous. Node runs a call up to its first \<open>await\<close> without
  interruption, so the lookup is two transitions: the call itself
  (\<open>getQRCodeByCodePublic_call\<close>: the cache check, the check of \<open>requestQueue\<close>, and for the
  first miss the query sent and the promise registered), and the arrival of the store's
  answer (\<open>fetch_settled\<close>: the rest of \<open>fetchQRCodeFromDatabase\<close>, then the continuations
  of the calls that await the promise, the first of which runs the \<open>finally\<close> block).
  The answer is the store's content when it arrives.
\<close>

definition fetchQRCodeFromDatabase_query :: "code \<Rightarrow> service_state \<Rightarrow> service_state" where
  "fetchQRCodeFromDatabase_query c st = st\<lparr>storeQueries := storeQueries st @ [c]\<rparr>"

definition fetchQRCodeFromDatabase_resume ::
  "code \<Rightarrow> time \<Rightarrow> time \<Rightarrow> service_state \<Rightarrow> (error + qr_public) \<times> service_state" where
  "fetchQRCodeFromDatabase_resume c tset tsweep st =
     (case db st c of
        None \<Rightarrow> (Inl QRCodeNotFound, st)
      | Some r \<Rightarrow>
          (let qrCode = projectPublic c r;
               cache1 = (qrCache st)(cacheKey c \<mapsto> \<lparr>ce_data = qrCode, ce_timestamp = tset\<rparr>)
           in (Inr qrCode, st\<lparr>qrCache := cleanupCache tsweep cache1\<rparr>)))"

definition getQRCodeByCodePublic_call ::
  "caller \<Rightarrow> code \<Rightarrow> time \<Rightarrow> service_state \<Rightarrow> (error + qr_public) option \<times> service_state" where
  "getQRCodeByCodePublic_call who c now st =
     (let hit = (case qrCache st (cacheKey c) of
                   None \<Rightarrow> None
                 | Some cached \<Rightarrow>
                     if now - ce_timestamp cached < CACHE_TTL then Some (ce_data cached) else None)
      in case hit of
           Some d \<Rightarrow> (Some (Inr d), st)
         | None \<Rightarrow>
            (case requestQueue st c of
               Some waiting \<Rightarrow> (None, st\<lparr>requestQueue := (requestQueue st)(c \<mapsto> waiting @ [who])\<rparr>)
             | None \<Rightarrow>
                 (None, (fetchQRCodeFromDatabase_query c st)
                           \<lparr>requestQueue := (requestQueue st)(c \<mapsto> [who])\<rparr>)))"

text \<open>What a call that awaited the promise does with its outcome: the \<open>catch\<close> block.\<close>

definition getQRCodeByCodePublic_resume :: "error + qr_public \<Rightarrow> error + qr_public" where
  "getQRCodeByCodePublic_resume res =
     (case res of Inl e \<Rightarrow> Inl (Failed ''Failed to get QR code'' e) | Inr d \<Rightarrow> Inr d)"

definition fetch_settled ::
  "code \<Rightarrow> time \<Rightarrow> time \<Rightarrow> service_state \<Rightarrow> (caller \<times> (error + qr_public)) list \<times> service_state" where
  "fetch_settled c tset tsweep st =
     (case requestQueue st c of
        None \<Rightarrow> ([], st)
      | Some waiting \<Rightarrow>
          (case fetchQRCodeFromDatabase_resume c tset tsweep st of
             (res, st1) \<Rightarrow>
               (map (\<lambda>who. (who, getQRCodeByCodePublic_resume res)) waiting,
                st1\<lparr>requestQueue := (requestQueue st1)(c := None)\<rparr>)))"

text \<open>
  One lookup from its call to its return, when nothing else runs in between: the call at
  \<open>now\<close>, then the answer of the store with the clock readings \<open>tset\<close> (the timestamp of
  the new cache entry) and \<open>tsweep\<close> (the reading in \<open>cleanupCache\<close>).
\<close>

definition getQRCodeByCodePublic ::
  "code \<Rightarrow> time \<Rightarrow> time \<Rightarrow> time \<Rightarrow> service_state \<Rightarrow> (error + qr_public) \<times> service_state" where
  "getQRCodeByCodePublic c now tset tsweep st =
     (case getQRCodeByCodePublic_call 0 c now st of
        (Some res, st1) \<Rightarrow> (res, st1)
      | (None, st1) \<Rightarrow>
          (case fetchQRCodeFromDatabase_resume c tset tsweep st1 of
             (res, st2) \<Rightarrow>
               (getQRCodeByCodePublic_resume res,
                st2\<lparr>requestQueue := (requestQueue st2)(c := None)\<rparr>)))"

subsection \<open>Reading and changing a code\<close>

definition getQRCodeByCodeForOwnership :: "code \<Rightarrow> service_state \<Rightarrow> error + qr_record" where
  "getQRCodeByCodeForOwnership c st =
     (case db st c of
        None \<Rightarrow> Inl (Failed ''Failed to get QR code'' QRCodeNotFound)
      | Some r \<Rightarrow> Inr r)"

text \<open>The body of an activation or update request: each part may be absent.\<close>

record qr_patch =
  b_details :: "details option"
  b_contact :: "contact option"
  b_settings :: "settings option"

definition spread :: "('k \<rightharpoonup> 'v) option \<Rightarrow> ('k \<rightharpoonup> 'v)" where
  "spread m = (case m of None \<Rightarrow> Map.empty | Some f \<Rightarrow> f)"

definition defaultLocation :: jsval where
  "defaultLocation =
     Obj [(''address'', Str []), (''city'', Str []), (''country'', Str []),
          (''coordinates'', Obj [(''lat'', Num 0), (''lng'', Num 0)])]"

text \<open>
  \<open>qrCache.delete(cacheKey)\<close> and \<open>qrCode.save()\<close>, the two effects that the methods
  below end with.
\<close>

definition evict :: "code \<Rightarrow> service_state \<Rightarrow> service_state" where
  "evict c st = st\<lparr>qrCache := (qrCache st)(cacheKey c := None)\<rparr>"

definition save :: "code \<Rightarrow> qr_record \<Rightarrow> service_state \<Rightarrow> service_state" where
  "save c r st = st\<lparr>db := (db st)(c \<mapsto> r)\<rparr>"

definition activateQRCode ::
  "code \<Rightarrow> qr_patch \<Rightarrow> user_id \<Rightarrow> time \<Rightarrow> service_state \<Rightarrow> (error + qr_record) \<times> service_state" where
  "activateQRCode c activationData ownerId now st =
     (case db st c of
        None \<Rightarrow> (Inl (Failed ''Failed to activate QR code'' QRCodeNotFound), st)
      | Some r \<Rightarrow>
          if isActivated r then (Inl (Failed ''Failed to activate QR code'' AlreadyActivated), st)
          else
            (case b_contact activationData of
               None \<Rightarrow> (Inl (Failed ''Failed to activate QR code'' TypeError), st)
             | Some c_in \<Rightarrow>
                 (let loc = (case c_in C_location of
                               None \<Rightarrow> defaultLocation
                             | Some v \<Rightarrow> if truthy (Some v) then v else defaultLocation);
                      qrCode = r\<lparr>isActivated := True,
                                 activationDate := Some now,
                                 owner := Some ownerId,
                                 details := details r ++ spread (b_details activationData),
                                 contact := (contact r ++ c_in)(C_location \<mapsto> loc),
                                 settings := settings r ++ spread (b_settings activationData)\<rparr>
                  in (Inr qrCode, evict c (save c qrCode st)))))"

record scan_data =
  sd_ipAddress :: "string option"
  sd_userAgent :: "string option"
  sd_location :: "string option"

text \<open>
  What \<open>handleScan\<close> returns besides the document. \<open>ownerName\<close> is \<open>qrCode.owner.name\<close>
  on an owner that is not populated: it is undefined for an owner that is set, and the
  read throws for an owner that is not.
\<close>

record scan_reply =
  itemName :: "jsval option"
  petName :: "jsval option"
  sr_type :: kind
  sr_contact :: contact
  sr_message :: "jsval option"

definition handleScan ::
  "code \<Rightarrow> scan_data \<Rightarrow> time \<Rightarrow> time \<Rightarrow> service_state
     \<Rightarrow> (error + qr_record \<times> scan_reply) \<times> service_state" where
  "handleScan c scanData t1 t2 st =
     (case db st c of
        None \<Rightarrow> (Inl (Failed ''Failed to handle scan'' QRCodeNotFound), st)
      | Some r \<Rightarrow>
          if \<not> isActivated r then (Inl (Failed ''Failed to handle scan'' NotActivated), st)
          else
            (let qrCode = incrementScanCount (sd_ipAddress scanData) (sd_userAgent scanData)
                            (sd_location scanData) t1 t2 r;
                 st1 = evict c (save c qrCode st)
             in case owner qrCode of
                  None \<Rightarrow> (Inl (Failed ''Failed to handle scan'' TypeError), st1)
                | Some ow \<Rightarrow>
                    (Inr (qrCode,
                          \<lparr>itemName = details qrCode D_name, petName = details qrCode D_name,
                           sr_type = qtype qrCode, sr_contact = contact qrCode,
                           sr_message = contact qrCode C_message\<rparr>), st1)))"

definition trackScan ::
  "code \<Rightarrow> scan_data \<Rightarrow> time \<Rightarrow> time \<Rightarrow> service_state
     \<Rightarrow> (error + nat \<times> time option) \<times> service_state" where
  "trackScan c scanData t1 t2 st =
     (case db st c of
        None \<Rightarrow> (Inl (Failed ''Failed to track scan'' QRCodeNotFound), st)
      | Some r \<Rightarrow>
          if \<not> isActivated r then (Inl (Failed ''Failed to track scan'' NotActivated), st)
          else
            (let qrCode = incrementScanCount (sd_ipAddress scanData) (sd_userAgent scanData)
                            (sd_location scanData) t1 t2 r
             in (Inr (scanCount qrCode, lastScanned qrCode), evict c (save c qrCode st))))"

text \<open>\<open>reportFound\<close>; the counter it bumps on the owner's user document is not modelled.\<close>

definition reportFound ::
  "code \<Rightarrow> finder_details \<Rightarrow> time \<Rightarrow> service_state \<Rightarrow> (error + qr_record) \<times> service_state" where
  "reportFound c finderDetails now st =
     (case db st c of
        None \<Rightarrow> (Inl (Failed ''Failed to report as found'' QRCodeNotFound), st)
      | Some r \<Rightarrow>
          if status r = Found then (Inl (Failed ''Failed to report as found'' AlreadyFound), st)
          else
            (let qrCode = markAsFound finderDetails now r
             in (Inr qrCode, evict c (save c qrCode st))))"

text \<open>
  \<open>updateQRCode\<close>: \<open>findOneAndUpdate\<close> with \<open>$set\<close> on the paths \<open>details\<close>,
  \<open>contact\<close> and \<open>settings\<close> that the request carries. \<open>$set\<close> on a path stores the
  given value at that path.
\<close>

definition updateQRCode ::
  "code \<Rightarrow> qr_patch \<Rightarrow> service_state \<Rightarrow> (error + qr_record) \<times> service_state" where
  "updateQRCode c updateData st =
     (case db st c of
        None \<Rightarrow> (Inl (Failed ''Failed to update QR code'' QRCodeNotFound), st)
      | Some r \<Rightarrow>
          (let qrCode = r\<lparr>details := (case b_details updateData of None \<Rightarrow> details r | Some d \<Rightarrow> d),
                          contact := (case b_contact updateData of None \<Rightarrow> contact r | Some k \<Rightarrow> k),
                          settings := (case b_settings updateData of None \<Rightarrow> settings r | Some s \<Rightarrow> s)\<rparr>
           in (Inr qrCode, save c qrCode st)))"

text \<open>
  \<open>toggleQRCodeStatus\<close>: \<open>$set\<close> of \<open>status\<close>. The \<open>lastModified\<close> of the same
  \<open>$set\<close> is not a path of the schema and is not stored.
\<close>

definition toggleQRCodeStatus ::
  "code \<Rightarrow> status \<Rightarrow> service_state \<Rightarrow> (error + qr_record) \<times> service_state" where
  "toggleQRCodeStatus c newStatus st =
     (case db st c of
        None \<Rightarrow> (Inl (Failed ''Failed to toggle QR code status'' QRCodeNotFound), st)
      | Some r \<Rightarrow>
          (let qrCode = r\<lparr>status := newStatus\<rparr>
           in (Inr qrCode, save c qrCode st)))"

subsection \<open>The one-time code of a contact update\<close>

definition storeUpdateOTP ::
  "code \<Rightarrow> string \<Rightarrow> time \<Rightarrow> string option \<Rightarrow> string option \<Rightarrow> service_state \<Rightarrow> service_state" where
  "storeUpdateOTP c otp expires newEmail newPhone st =
     (case db st c of
        None \<Rightarrow> st
      | Some r \<Rightarrow>
          save c (r\<lparr>updateOTP := Some \<lparr>otp_code = Some otp, otp_expires = Some expires,
                                       otp_newEmail = newEmail, otp_newPhone = newPhone\<rparr>\<rparr>) st)"

definition verifyUpdateOTP :: "code \<Rightarrow> string \<Rightarrow> time \<Rightarrow> service_state \<Rightarrow> bool" where
  "verifyUpdateOTP c otp now st =
     (case db st c of
        None \<Rightarrow> False
      | Some r \<Rightarrow>
          (case updateOTP r of
             None \<Rightarrow> False
           | Some u \<Rightarrow>
               if otp_code u = Some otp
                  \<and> (case otp_expires u of None \<Rightarrow> False | Some e \<Rightarrow> now < e)
               then True else False))"

text \<open>\<open>$unset\<close> of the four paths under \<open>updateOTP\<close>: an object with no field is left.\<close>

definition clearUpdateOTP :: "code \<Rightarrow> service_state \<Rightarrow> service_state" where
  "clearUpdateOTP c st =
     (case db st c of
        None \<Rightarrow> st
      | Some r \<Rightarrow>
          (case updateOTP r of
             None \<Rightarrow> st
           | Some u \<Rightarrow>
               save c (r\<lparr>updateOTP := Some \<lparr>otp_code = None, otp_expires = None,
                                            otp_newEmail = None, otp_newPhone = None\<rparr>\<rparr>) st))"

section \<open>The routes (routes/qr.js)\<close>

text \<open>
  A handler answers with a payload, or with a status and the reason of the failure.
  \<open>Thrown e\<close> is the answer of the handler's \<open>catch\<close> block, which sends the message
  of what was thrown.
\<close>

datatype http_error =
    ValidationFailed
  | AccessDenied
  | ActivatedByAnotherUser
  | InvalidOrExpiredOTP
  | Thrown error

type_synonym 'a response = "(nat \<times> http_error) + 'a"









text \<open>
  The ownership check that opens the private handlers:
  \<open>qrCode.owner.toString() !== req.user.id\<close> after \<open>getQRCodeByCodeForOwnership\<close>.
\<close>

definition verifyOwnership :: "code \<Rightarrow> user_id \<Rightarrow> service_state \<Rightarrow> qr_record response" where
  "verifyOwnership c reqUser st =
     (case getQRCodeByCodeForOwnership c st of
        Inl e \<Rightarrow> Inl (500, Thrown e)
      | Inr qrCode \<Rightarrow>
          (case owner qrCode of
             None \<Rightarrow> Inl (500, Thrown TypeError)
           | Some ow \<Rightarrow> if ow \<noteq> reqUser then Inl (403, AccessDenied) else Inr qrCode))"

text \<open>\<open>POST /:code/verify-update-otp\<close>, for the authenticated user \<open>reqUser\<close>.\<close>

definition postVerifyUpdateOtp ::
  "code \<Rightarrow> user_id \<Rightarrow> string \<Rightarrow> qr_patch \<Rightarrow> time \<Rightarrow> service_state
     \<Rightarrow> qr_record response \<times> service_state" where
  "postVerifyUpdateOtp c reqUser otp updateData now st =
     (if length otp \<noteq> 6 then (Inl (400, ValidationFailed), st)
      else
        (case verifyOwnership c reqUser st of
           Inl err \<Rightarrow> (Inl err, st)
         | Inr qrCode \<Rightarrow>
             if \<not> verifyUpdateOTP c otp now st then (Inl (400, InvalidOrExpiredOTP), st)
             else
               (case updateQRCode c updateData st of
                  (Inl e, st1) \<Rightarrow> (Inl (500, Thrown e), st1)
                | (Inr updatedQRCode, st1) \<Rightarrow> (Inr updatedQRCode, clearUpdateOTP c st1))))"

record toggle_reply =
  tr_code :: code
  tr_status :: status
  tr_isActive :: bool

text \<open>\<open>PATCH /:code/toggle-status\<close>, for the authenticated user \<open>reqUser\<close>.\<close>

definition patchToggleStatus ::
  "code \<Rightarrow> user_id \<Rightarrow> service_state \<Rightarrow> toggle_reply response \<times> service_state" where
  "patchToggleStatus c reqUser st =
     (case verifyOwnership c reqUser st of
        Inl err \<Rightarrow> (Inl err, st)
      | Inr qrCode \<Rightarrow>
          (let newStatus = (if status qrCode = Active then Inactive else Active)
           in case toggleQRCodeStatus c newStatus st of
                (Inl e, st1) \<Rightarrow> (Inl (500, Thrown e), st1)
              | (Inr updatedQRCode, st1) \<Rightarrow>
                  (Inr \<lparr>tr_code = c, tr_status = status updatedQRCode,
                        tr_isActive = (status updatedQRCode = Active)\<rparr>, st1)))"

text \<open>Lookups that start one after the other before the store answers.\<close>

definition concurrentLookups :: "(caller \<times> time) list \<Rightarrow> code \<Rightarrow> service_state \<Rightarrow> service_state" where
  "concurrentLookups calls c st =
     foldl (\<lambda>s (who, now). snd (getQRCodeByCodePublic_call who c now s)) st calls"

section \<open>A sample code\<close>

definition sampleRecord :: qr_record where
  "sampleRecord =
     \<lparr>oid = 1, qtype = Item, owner = Some 7,
      details = [D_name \<mapsto> Str ''Keys'', D_color \<mapsto> Str ''red''],
      contact = [C_name \<mapsto> Str ''Ann'', C_phone \<mapsto> Str ''0820000000'',
                 C_email \<mapsto> Str ''ann@example.com''],
      settings = [S_instantAlerts \<mapsto> Bool True, S_locationSharing \<mapsto> Bool True,
                  S_showContactOnFinderPage \<mapsto> Bool True],
      status = Active, isActivated = True,
      activationDate = Some 100, lastScanned = None, scanCount = 0,
      foundBy = None, qrImageUrl = None, meta_userAgent = None, meta_ipAddress = None,
      scanHistory = [], updateOTP = None\<rparr>"

definition sampleState :: service_state where
  "sampleState =
     \<lparr>db = [''A1B2C3D4E5F6'' \<mapsto> sampleRecord],
      users = [''ann@example.com'' \<mapsto> 7],
      qrCache = Map.empty, requestQueue = Map.empty, storeQueries = []\<rparr>"

text \<open>The sample state after a public lookup at time 1000 has filled the cache.\<close>

definition cachedState :: service_state where
  "cachedState = snd (getQRCodeByCodePublic ''A1B2C3D4E5F6'' 1000 1000 1000 sampleState)"

text \<open>What a lookup that goes to the store returns, given the store's content.\<close>

definition storeAnswer :: "code \<Rightarrow> service_state \<Rightarrow> error + qr_public" where
  "storeAnswer c st =
     (case db st c of
        None \<Rightarrow> Inl (Failed ''Failed to get QR code'' QRCodeNotFound)
      | Some r \<Rightarrow> Inr (projectPublic c r))"

text \<open>The sample code before its activation, and after a finder has reported it.\<close>

definition unactivatedState :: service_state where
  "unactivatedState =
     sampleState\<lparr>db := [''A1B2C3D4E5F6'' \<mapsto> sampleRecord\<lparr>isActivated := False\<rparr>]\<rparr>"

definition foundState :: service_state where
  "foundState =
     sampleState\<lparr>db := [''A1B2C3D4E5F6'' \<mapsto> sampleRecord\<lparr>status := Found\<rparr>]\<rparr>"

text \<open>Request bodies: a new name only, new contact details, and three activation requests.\<close>

definition renamePatch :: qr_patch where
  "renamePatch =
     \<lparr>b_details = Some [D_name \<mapsto> Str ''Spare keys''], b_contact = None, b_settings = None\<rparr>"

definition contactPatch :: qr_patch where
  "contactPatch =
     \<lparr>b_details = None,
      b_contact = Some [C_name \<mapsto> Str ''Bob'', C_phone \<mapsto> Str ''0830000000'',
                        C_email \<mapsto> Str ''bob@example.com''],
      b_settings = None\<rparr>"





text \<open>The sample state with a one-time code stored for a change of the phone number.\<close>

definition otpState :: service_state where
  "otpState = storeUpdateOTP ''A1B2C3D4E5F6'' ''123456'' 700000 None (Some ''0830000000'') sampleState"

section \<open>The bounded scan history\<close>

lemma scanOnce_history:
  "scanHistory (scanOnce r s) =
     drop (length (scanHistory r) + 1 - 50) (scanHistory r @ [newEntry s])"
  by (simp add: scanOnce_def incrementScanCount_def newEntry_def Let_def)

lemma scanOnce_length:
  "length (scanHistory (scanOnce r s)) = min 50 (length (scanHistory r) + 1)"
  by (simp add: scanOnce_history)

lemma scanMany_bound:
  "length (scanHistory (scanMany r ss)) \<le> max 50 (length (scanHistory r))"
  unfolding scanMany_def
proof (induction ss arbitrary: r)
  case Nil
  show ?case by simp
next
  case (Cons s ss)
  have "length (scanHistory (foldl scanOnce (scanOnce r s) ss))
          \<le> max 50 (length (scanHistory (scanOnce r s)))"
    by (rule Cons.IH)
  also have "\<dots> \<le> max 50 (length (scanHistory r))"
    by (simp add: scanOnce_length)
  finally show ?case by simp
qed

lemma scanMany_snoc: "scanMany r (ss @ [s]) = scanOnce (scanMany r ss) s"
  by (simp add: scanMany_def)

text \<open>
  C2. After a scan the history has at most 50 entries, whatever it held before; the
  entry of the scan is appended as the newest one; what is dropped is a prefix of the
  old history (the oldest entries), and it is dropped only to get back to 50. The bound
  holds after any non-empty sequence of scans, and any sequence of scans keeps a history
  that was within the bound within it.
\<close>

theorem scanHistory_bounded_fifo:
  "length (scanHistory (scanOnce r s)) = min 50 (length (scanHistory r) + 1)
   \<and> scanHistory (scanOnce r s)
       = drop (length (scanHistory r) + 1 - 50) (scanHistory r) @ [newEntry s]
   \<and> scanCount (scanOnce r s) = scanCount r + 1
   \<and> length (scanHistory (scanMany r (ss @ [s]))) \<le> 50
   \<and> length (scanHistory (scanMany r ss)) \<le> max 50 (length (scanHistory r))"
proof -
  have "length (scanHistory (scanMany r (ss @ [s]))) \<le> 50"
    by (simp add: scanMany_snoc scanOnce_length)
  moreover have "scanCount (scanOnce r s) = scanCount r + 1"
    by (simp add: scanOnce_def incrementScanCount_def Let_def)
  moreover have "scanHistory (scanOnce r s)
       = drop (length (scanHistory r) + 1 - 50) (scanHistory r) @ [newEntry s]"
    by (simp add: scanOnce_history)
  ultimately show ?thesis
    using scanOnce_length scanMany_bound by blast
qed

section \<open>Lookups and the cache: auxiliary facts\<close>

lemma cacheKey_inj [simp]: "cacheKey a = cacheKey b \<longleftrightarrow> a = b"
  by (simp add: cacheKey_def)

lemma call_result:
  "fst (getQRCodeByCodePublic_call who c now st) =
     (case qrCache st (cacheKey c) of
        None \<Rightarrow> None
      | Some e \<Rightarrow> if now - ce_timestamp e < CACHE_TTL then Some (Inr (ce_data e)) else None)"
  by (simp add: getQRCodeByCodePublic_call_def Let_def split: option.splits)

lemma call_miss:
  assumes "fst (getQRCodeByCodePublic_call who c now st) = None" and "requestQueue st c = None"
  shows "snd (getQRCodeByCodePublic_call who c now st)
           = st\<lparr>requestQueue := (requestQueue st)(c \<mapsto> [who]),
                storeQueries := storeQueries st @ [c]\<rparr>"
  using assms
  by (simp add: getQRCodeByCodePublic_call_def fetchQRCodeFromDatabase_query_def Let_def
      split: option.splits if_splits)

lemma call_join:
  assumes "fst (getQRCodeByCodePublic_call who c now st) = None" and "requestQueue st c = Some ws"
  shows "snd (getQRCodeByCodePublic_call who c now st)
           = st\<lparr>requestQueue := (requestQueue st)(c \<mapsto> ws @ [who])\<rparr>"
  using assms
  by (simp add: getQRCodeByCodePublic_call_def Let_def split: option.splits if_splits)

text \<open>
  The lookup run to its end is its call followed by the arrival of the answer: the state
  is the same, and the caller is among those the answer is delivered to, with the result
  of the lookup.
\<close>

lemma lookup_is_call_then_answer:
  assumes "fst (getQRCodeByCodePublic_call 0 c now st) = None"
  shows "snd (fetch_settled c tset tsweep (snd (getQRCodeByCodePublic_call 0 c now st)))
           = snd (getQRCodeByCodePublic c now tset tsweep st)
       \<and> (0, fst (getQRCodeByCodePublic c now tset tsweep st))
           \<in> set (fst (fetch_settled c tset tsweep (snd (getQRCodeByCodePublic_call 0 c now st))))"
proof (cases "requestQueue st c")
  case None
  have st1: "getQRCodeByCodePublic_call 0 c now st
         = (None, st\<lparr>requestQueue := (requestQueue st)(c \<mapsto> [0]),
              storeQueries := storeQueries st @ [c]\<rparr>)"
    using call_miss [OF assms None] assms by (simp add: prod_eq_iff)
  show ?thesis
    by (simp add: getQRCodeByCodePublic_def fetch_settled_def st1 split: prod.splits)
next
  case (Some ws)
  have st1: "getQRCodeByCodePublic_call 0 c now st
         = (None, st\<lparr>requestQueue := (requestQueue st)(c \<mapsto> ws @ [0])\<rparr>)"
    using call_join [OF assms Some] assms by (simp add: prod_eq_iff)
  show ?thesis
    by (simp add: getQRCodeByCodePublic_def fetch_settled_def st1 split: prod.splits)
qed

lemma cachedState_eq:
  "cachedState = sampleState\<lparr>qrCache := [cacheKey ''A1B2C3D4E5F6'' \<mapsto>
       \<lparr>ce_data = projectPublic ''A1B2C3D4E5F6'' sampleRecord, ce_timestamp = 1000\<rparr>],
       storeQueries := [''A1B2C3D4E5F6'']\<rparr>"
  unfolding cachedState_def
  by (simp add: getQRCodeByCodePublic_def getQRCodeByCodePublic_call_def
       fetchQRCodeFromDatabase_query_def fetchQRCodeFromDatabase_resume_def
       getQRCodeByCodePublic_resume_def sampleState_def Let_def
       cleanupCache_def CACHE_TTL_def fun_eq_iff)

text \<open>
  The operations that end with \<open>qrCache.delete\<close>: when they return, the cache has no
  entry for the code.
\<close>

lemma activateQRCode_evicts:
  "fst (activateQRCode c activationData ownerId now st) = Inr q \<Longrightarrow>
     qrCache (snd (activateQRCode c activationData ownerId now st)) (cacheKey c) = None"
  by (auto simp add: activateQRCode_def evict_def save_def Let_def
      split: option.splits if_splits)

lemma handleScan_evicts:
  "fst (handleScan c scanData t1 t2 st) = Inr q \<Longrightarrow>
     qrCache (snd (handleScan c scanData t1 t2 st)) (cacheKey c) = None"
  by (auto simp add: handleScan_def evict_def save_def Let_def
      split: option.splits if_splits)

lemma trackScan_evicts:
  "fst (trackScan c scanData t1 t2 st) = Inr q \<Longrightarrow>
     qrCache (snd (trackScan c scanData t1 t2 st)) (cacheKey c) = None"
  by (auto simp add: trackScan_def evict_def save_def Let_def
      split: option.splits if_splits)

lemma reportFound_evicts:
  "fst (reportFound c finderDetails now st) = Inr q \<Longrightarrow>
     qrCache (snd (reportFound c finderDetails now st)) (cacheKey c) = None"
  by (auto simp add: reportFound_def evict_def save_def Let_def
      split: option.splits if_splits)

text \<open>The two operations that write the store and do not touch the cache.\<close>

lemma updateQRCode_keeps_cache:
  "qrCache (snd (updateQRCode c updateData st)) = qrCache st"
  by (simp add: updateQRCode_def save_def Let_def split: option.splits)

lemma toggleQRCodeStatus_keeps_cache:
  "qrCache (snd (toggleQRCodeStatus c newStatus st)) = qrCache st"
  by (simp add: toggleQRCodeStatus_def save_def Let_def split: option.splits)

section \<open>Cache eviction after a change\<close>

text \<open>
  C1. A change of a code is to evict the code's cache entry, so that the next public
  lookup does not return the snapshot taken before the change. \<open>updateQRCode\<close> and
  \<open>toggleQRCodeStatus\<close> do not: in the sample state whose cache was filled at time 1000,
  an update of the contact details succeeds and stores the name Bob, and the lookup at
  time 2000 still answers with the name Ann; a toggle succeeds and stores the status
  inactive, and the lookup at time 2000 still answers with the status active.
\<close>

theorem update_and_toggle_leave_stale_entry:
  "\<not> isl (fst (updateQRCode ''A1B2C3D4E5F6'' contactPatch cachedState))
   \<and> map_option (\<lambda>r. contact r C_name)
        (db (snd (updateQRCode ''A1B2C3D4E5F6'' contactPatch cachedState)) ''A1B2C3D4E5F6'')
       = Some (Some (Str ''Bob''))
   \<and> map_sum id (\<lambda>d. p_contact d C_name)
        (fst (getQRCodeByCodePublic ''A1B2C3D4E5F6'' 2000 2000 2000
               (snd (updateQRCode ''A1B2C3D4E5F6'' contactPatch cachedState))))
       = Inr (Some (Str ''Ann''))
   \<and> \<not> isl (fst (patchToggleStatus ''A1B2C3D4E5F6'' 7 cachedState))
   \<and> map_option status
        (db (snd (patchToggleStatus ''A1B2C3D4E5F6'' 7 cachedState)) ''A1B2C3D4E5F6'')
       = Some Inactive
   \<and> map_sum id p_status
        (fst (getQRCodeByCodePublic ''A1B2C3D4E5F6'' 2000 2000 2000
               (snd (patchToggleStatus ''A1B2C3D4E5F6'' 7 cachedState))))
       = Inr Active"
  by (simp add: cachedState_eq updateQRCode_def contactPatch_def sampleState_def save_def
      sampleRecord_def Let_def getQRCodeByCodePublic_def getQRCodeByCodePublic_call_def
      projectPublic_def publicContact_def CACHE_TTL_def patchToggleStatus_def
      verifyOwnership_def getQRCodeByCodeForOwnership_def toggleQRCodeStatus_def)

section \<open>Activation of a code that is already activated\<close>

lemma activateQRCode_activated:
  assumes "db st c = Some r" and "isActivated r"
  shows "activateQRCode c activationData ownerId now st
           = (Inl (Failed ''Failed to activate QR code'' AlreadyActivated), st)"
  using assms by (simp add: activateQRCode_def)



section \<open>Scanning a code that is not activated\<close>

text \<open>
  C4. A scan of a code that is not activated fails with the error of a code that is not
  activated yet, through \<open>handleScan\<close> and through \<open>trackScan\<close>, and the state after
  the call is the state before it: no counter, no date and no history entry changes.
\<close>

theorem scan_unactivated_fails:
  assumes "db st c = Some r" and "\<not> isActivated r"
  shows "handleScan c scanData t1 t2 st
           = (Inl (Failed ''Failed to handle scan'' NotActivated), st)
       \<and> trackScan c scanData t1 t2 st
           = (Inl (Failed ''Failed to track scan'' NotActivated), st)"
  using assms by (simp add: handleScan_def trackScan_def)

theorem scan_unactivated_fails_witness:
  "handleScan ''A1B2C3D4E5F6''
       \<lparr>sd_ipAddress = Some ''10.0.0.1'', sd_userAgent = None, sd_location = None\<rparr>
       5 6 unactivatedState
     = (Inl (Failed ''Failed to handle scan'' NotActivated), unactivatedState)
   \<and> trackScan ''A1B2C3D4E5F6''
       \<lparr>sd_ipAddress = Some ''10.0.0.1'', sd_userAgent = None, sd_location = None\<rparr>
       5 6 unactivatedState
     = (Inl (Failed ''Failed to track scan'' NotActivated), unactivatedState)"
  by (rule scan_unactivated_fails [where r = "sampleRecord\<lparr>isActivated := False\<rparr>"])
     (simp_all add: unactivatedState_def sampleState_def sampleRecord_def)

section \<open>Expiry of a cache entry\<close>

text \<open>
  C5. A call returns the cached document only while \<open>now - timestamp < CACHE_TTL\<close>
  (\<open>call_result\<close>). For an entry that has reached that age: the call returns nothing
  from the cache; the lookup answers with what the store holds (or fails when the store
  has no such code, leaving the cache as it was); it sends one query to the store, unless
  a fetch for the code is in flight already, whose answer it then awaits; and when the
  store holds the code, the cache entry is replaced by the fetched document with the
  timestamp read at that moment, provided the sweep that follows reads the clock within
  the time to live of that timestamp.
\<close>

theorem expired_entry_refetched:
  assumes "qrCache st (cacheKey c) = Some e"
    and "now - ce_timestamp e \<ge> CACHE_TTL"
  shows "fst (getQRCodeByCodePublic_call who c now st) = None
       \<and> fst (getQRCodeByCodePublic c now tset tsweep st) = storeAnswer c st
       \<and> storeQueries (snd (getQRCodeByCodePublic c now tset tsweep st))
           = (if requestQueue st c = None then storeQueries st @ [c] else storeQueries st)
       \<and> (case db st c of
            None \<Rightarrow> qrCache (snd (getQRCodeByCodePublic c now tset tsweep st)) = qrCache st
          | Some r \<Rightarrow>
              if tsweep - tset \<le> CACHE_TTL
              then qrCache (snd (getQRCodeByCodePublic c now tset tsweep st)) (cacheKey c)
                     = Some \<lparr>ce_data = projectPublic c r, ce_timestamp = tset\<rparr>
              else qrCache (snd (getQRCodeByCodePublic c now tset tsweep st)) (cacheKey c) = None)"
proof -
  have miss: "fst (getQRCodeByCodePublic_call 0 c now st) = None"
             "fst (getQRCodeByCodePublic_call who c now st) = None"
    using assms by (simp_all add: call_result)
  show ?thesis
  proof (cases "requestQueue st c")
    case None
    have st1: "getQRCodeByCodePublic_call 0 c now st
           = (None, st\<lparr>requestQueue := (requestQueue st)(c \<mapsto> [0]),
                storeQueries := storeQueries st @ [c]\<rparr>)"
      using call_miss [OF miss(1) None] miss(1) by (simp add: prod_eq_iff)
    show ?thesis
      using miss(2) None
      by (simp add: getQRCodeByCodePublic_def st1 fetchQRCodeFromDatabase_resume_def
          getQRCodeByCodePublic_resume_def storeAnswer_def Let_def cleanupCache_def
          split: option.splits)
  next
    case (Some ws)
    have st1: "getQRCodeByCodePublic_call 0 c now st
           = (None, st\<lparr>requestQueue := (requestQueue st)(c \<mapsto> ws @ [0])\<rparr>)"
      using call_join [OF miss(1) Some] miss(1) by (simp add: prod_eq_iff)
    show ?thesis
      using miss(2) Some
      by (simp add: getQRCodeByCodePublic_def st1 fetchQRCodeFromDatabase_resume_def
          getQRCodeByCodePublic_resume_def storeAnswer_def Let_def cleanupCache_def
          split: option.splits)
  qed
qed

theorem expired_entry_refetched_witness:
  "qrCache cachedState (cacheKey ''A1B2C3D4E5F6'')
     = Some \<lparr>ce_data = projectPublic ''A1B2C3D4E5F6'' sampleRecord, ce_timestamp = 1000\<rparr>
   \<and> 601000 - 1000 \<ge> CACHE_TTL
   \<and> fst (getQRCodeByCodePublic_call 3 ''A1B2C3D4E5F6'' 601000 cachedState) = None
   \<and> fst (getQRCodeByCodePublic ''A1B2C3D4E5F6'' 601000 601005 601006 cachedState)
       = Inr (projectPublic ''A1B2C3D4E5F6'' sampleRecord)
   \<and> storeQueries (snd (getQRCodeByCodePublic ''A1B2C3D4E5F6'' 601000 601005 601006 cachedState))
       = [''A1B2C3D4E5F6'', ''A1B2C3D4E5F6'']
   \<and> qrCache (snd (getQRCodeByCodePublic ''A1B2C3D4E5F6'' 601000 601005 601006 cachedState))
        (cacheKey ''A1B2C3D4E5F6'')
       = Some \<lparr>ce_data = projectPublic ''A1B2C3D4E5F6'' sampleRecord, ce_timestamp = 601005\<rparr>"
proof -
  have e: "qrCache cachedState (cacheKey ''A1B2C3D4E5F6'')
     = Some \<lparr>ce_data = projectPublic ''A1B2C3D4E5F6'' sampleRecord, ce_timestamp = 1000\<rparr>"
    by (simp add: cachedState_eq)
  have old: "601000 - ce_timestamp \<lparr>ce_data = projectPublic ''A1B2C3D4E5F6'' sampleRecord,
                                    ce_timestamp = 1000\<rparr> \<ge> CACHE_TTL"
    by (simp add: CACHE_TTL_def)
  have q: "requestQueue cachedState ''A1B2C3D4E5F6'' = None"
    by (simp add: cachedState_eq sampleState_def)
  have d: "db cachedState ''A1B2C3D4E5F6'' = Some sampleRecord"
    and l: "storeQueries cachedState = [''A1B2C3D4E5F6'']"
    by (simp_all add: cachedState_eq sampleState_def)
  show ?thesis
    using expired_entry_refetched [OF e old, of 3 601005 601006] e
    by (simp add: d l q storeAnswer_def CACHE_TTL_def)
qed

section \<open>The one-time code is used once\<close>

text \<open>
  C6. When \<open>verify-update-otp\<close> has succeeded for a code, the four fields of
  \<open>updateOTP\<close> are unset in the stored document, no code verifies any more, and the same
  request again (with any update and at any time) is refused with status 400, invalid or
  expired OTP, and changes nothing.
\<close>

theorem otp_single_use:
  assumes "fst (postVerifyUpdateOtp c reqUser otp updateData now st) = Inr q"
  shows "map_option updateOTP (db (snd (postVerifyUpdateOtp c reqUser otp updateData now st)) c)
           = Some (Some \<lparr>otp_code = None, otp_expires = None,
                          otp_newEmail = None, otp_newPhone = None\<rparr>)
       \<and> \<not> verifyUpdateOTP c otp' now' (snd (postVerifyUpdateOtp c reqUser otp updateData now st))
       \<and> postVerifyUpdateOtp c reqUser otp updateData' now'
            (snd (postVerifyUpdateOtp c reqUser otp updateData now st))
           = (Inl (400, InvalidOrExpiredOTP),
              snd (postVerifyUpdateOtp c reqUser otp updateData now st))"
  using assms
  by (auto simp add: postVerifyUpdateOtp_def verifyOwnership_def getQRCodeByCodeForOwnership_def
        verifyUpdateOTP_def updateQRCode_def clearUpdateOTP_def save_def Let_def
      split: if_splits option.splits sum.splits prod.splits)

theorem otp_single_use_witness:
  "\<not> isl (fst (postVerifyUpdateOtp ''A1B2C3D4E5F6'' 7 ''123456'' contactPatch 100000 otpState))
   \<and> fst (postVerifyUpdateOtp ''A1B2C3D4E5F6'' 7 ''123456'' contactPatch 100001
            (snd (postVerifyUpdateOtp ''A1B2C3D4E5F6'' 7 ''123456'' contactPatch 100000 otpState)))
       = Inl (400, InvalidOrExpiredOTP)"
proof -
  have ok: "\<not> isl (fst (postVerifyUpdateOtp ''A1B2C3D4E5F6'' 7 ''123456'' contactPatch 100000 otpState))"
    by (simp add: otpState_def storeUpdateOTP_def sampleState_def sampleRecord_def save_def
        postVerifyUpdateOtp_def verifyOwnership_def getQRCodeByCodeForOwnership_def
        verifyUpdateOTP_def updateQRCode_def contactPatch_def Let_def)
  then obtain q where
    "fst (postVerifyUpdateOtp ''A1B2C3D4E5F6'' 7 ''123456'' contactPatch 100000 otpState) = Inr q"
    by (cases "fst (postVerifyUpdateOtp ''A1B2C3D4E5F6'' 7 ''123456'' contactPatch 100000 otpState)")
       simp_all
  from otp_single_use [OF this, of "''123456''" 100001 contactPatch] ok
  show ?thesis by simp
qed

section \<open>What an update keeps\<close>

text \<open>
  C7. An update is to merge the fields that the request carries and to keep every other
  field. \<open>updateQRCode\<close> replaces each of \<open>details\<close>, \<open>contact\<close> and \<open>settings\<close>
  that the request carries as a whole: the sample document has the colour red, the
  request carries a new name and no colour, and the updated document has no colour.
\<close>

theorem update_drops_absent_fields:
  "details sampleRecord D_color = Some (Str ''red'')
   \<and> spread (b_details renamePatch) D_color = None
   \<and> map_sum id (\<lambda>r. details r D_color)
        (fst (updateQRCode ''A1B2C3D4E5F6'' renamePatch sampleState))
       = Inr None
   \<and> map_option (\<lambda>r. details r D_color)
        (db (snd (updateQRCode ''A1B2C3D4E5F6'' renamePatch sampleState)) ''A1B2C3D4E5F6'')
       = Some None"
  by (simp add: updateQRCode_def renamePatch_def sampleState_def save_def
      sampleRecord_def Let_def spread_def)

section \<open>The status toggle\<close>

text \<open>
  C8. The toggle is to move a code between the statuses active and inactive and to leave
  a code with the status found or suspended as it is. The handler takes every status
  other than active to active: for the sample code that a finder has reported (status
  found), the toggle by its owner stores the status active.
\<close>

theorem toggle_changes_found:
  "map_option status (db foundState ''A1B2C3D4E5F6'') = Some Found
   \<and> map_option status (db (snd (patchToggleStatus ''A1B2C3D4E5F6'' 7 foundState)) ''A1B2C3D4E5F6'')
       = Some Active"
  by (simp add: patchToggleStatus_def verifyOwnership_def getQRCodeByCodeForOwnership_def
      toggleQRCodeStatus_def save_def foundState_def sampleState_def sampleRecord_def Let_def)

text \<open>
  What the handler answers: for a code that the store does not hold, the error of a code
  not found; for a code owned by the requester, the status inactive when the status was
  active, and the status active otherwise.
\<close>

lemma patchToggleStatus_result:
  "(db st c = None \<longrightarrow>
      patchToggleStatus c reqUser st
        = (Inl (500, Thrown (Failed ''Failed to get QR code'' QRCodeNotFound)), st))
   \<and> (db st c = Some r \<and> owner r = Some reqUser \<longrightarrow>
      patchToggleStatus c reqUser st
        = (Inr \<lparr>tr_code = c, tr_status = (if status r = Active then Inactive else Active),
                tr_isActive = (status r \<noteq> Active)\<rparr>,
           st\<lparr>db := (db st)(c \<mapsto> r\<lparr>status := (if status r = Active then Inactive else Active)\<rparr>)\<rparr>))"
  by (simp add: patchToggleStatus_def verifyOwnership_def getQRCodeByCodeForOwnership_def
      toggleQRCodeStatus_def save_def Let_def)

section \<open>Concurrent lookups of one code\<close>

lemma concurrentLookups_snoc:
  "concurrentLookups (calls @ [(who, now)]) c st
     = snd (getQRCodeByCodePublic_call who c now (concurrentLookups calls c st))"
  by (simp add: concurrentLookups_def)

lemma concurrentLookups_uncached:
  assumes "qrCache st (cacheKey c) = None" and "requestQueue st c = None"
  shows "calls \<noteq> [] \<Longrightarrow>
         db (concurrentLookups calls c st) = db st
       \<and> qrCache (concurrentLookups calls c st) = qrCache st
       \<and> requestQueue (concurrentLookups calls c st) c = Some (map fst calls)
       \<and> storeQueries (concurrentLookups calls c st) = storeQueries st @ [c]"
proof (induction calls rule: rev_induct)
  case Nil
  then show ?case by simp
next
  case (snoc x calls)
  obtain who now where x: "x = (who, now)" by (cases x)
  let ?s = "concurrentLookups calls c st"
  have step: "concurrentLookups (calls @ [x]) c st = snd (getQRCodeByCodePublic_call who c now ?s)"
    by (simp add: x concurrentLookups_snoc)
  show ?case
  proof (cases "calls = []")
    case True
    then have s: "?s = st" by (simp add: concurrentLookups_def)
    have "fst (getQRCodeByCodePublic_call who c now st) = None"
      using assms(1) by (simp add: call_result)
    then have "snd (getQRCodeByCodePublic_call who c now st)
        = st\<lparr>requestQueue := (requestQueue st)(c \<mapsto> [who]),
             storeQueries := storeQueries st @ [c]\<rparr>"
      using assms(2) by (rule call_miss)
    then show ?thesis
      unfolding step s by (simp add: True x)
  next
    case False
    then have ih: "db ?s = db st" "qrCache ?s = qrCache st"
        "requestQueue ?s c = Some (map fst calls)"
        "storeQueries ?s = storeQueries st @ [c]"
      using snoc.IH by simp_all
    have "fst (getQRCodeByCodePublic_call who c now ?s) = None"
      using assms(1) ih(2) by (simp add: call_result)
    then have "snd (getQRCodeByCodePublic_call who c now ?s)
        = ?s\<lparr>requestQueue := (requestQueue ?s)(c \<mapsto> map fst calls @ [who])\<rparr>"
      using ih(3) by (rule call_join)
    then show ?thesis
      unfolding step using ih by (simp add: x)
  qed
qed

text \<open>
  C9. Lookups of a code that has no cache entry and no fetch in flight, started one after
  the other before the store answers: the first sends the one query, the others wait on
  its promise. When the answer arrives, each of the callers receives the same result,
  the document the store holds or the failure that it holds none; the entry of the code
  in \<open>requestQueue\<close> is removed in both cases, and no further query has been sent. A
  lookup after that is served from the cache entry that the fetch has stored, with the
  same document, or sends a second query.
\<close>

theorem coalesced_lookups:
  assumes "qrCache st (cacheKey c) = None" and "requestQueue st c = None" and "calls \<noteq> []"
  shows "storeQueries (concurrentLookups calls c st) = storeQueries st @ [c]
       \<and> requestQueue (concurrentLookups calls c st) c = Some (map fst calls)
       \<and> fst (fetch_settled c tset tsweep (concurrentLookups calls c st))
           = map (\<lambda>who. (who, storeAnswer c st)) (map fst calls)
       \<and> requestQueue (snd (fetch_settled c tset tsweep (concurrentLookups calls c st))) c = None
       \<and> storeQueries (snd (fetch_settled c tset tsweep (concurrentLookups calls c st)))
           = storeQueries st @ [c]
       \<and> (if fst (getQRCodeByCodePublic_call who c later
                    (snd (fetch_settled c tset tsweep (concurrentLookups calls c st)))) = None
          then storeQueries (snd (getQRCodeByCodePublic_call who c later
                    (snd (fetch_settled c tset tsweep (concurrentLookups calls c st)))))
                 = storeQueries st @ [c, c]
          else fst (getQRCodeByCodePublic_call who c later
                    (snd (fetch_settled c tset tsweep (concurrentLookups calls c st))))
                 = Some (storeAnswer c st))"
proof -
  let ?s = "concurrentLookups calls c st"
  have s: "db ?s = db st" "qrCache ?s = qrCache st"
      "requestQueue ?s c = Some (map fst calls)"
      "storeQueries ?s = storeQueries st @ [c]"
    using concurrentLookups_uncached [OF assms(1,2,3)] by simp_all
  obtain ds st2 where f: "fetch_settled c tset tsweep ?s = (ds, st2)"
    by (cases "fetch_settled c tset tsweep ?s")
  have ds: "ds = map (\<lambda>who. (who, storeAnswer c st)) (map fst calls)"
    and q2: "requestQueue st2 c = None"
    and l2: "storeQueries st2 = storeQueries st @ [c]"
    and c2: "qrCache st2 (cacheKey c) = None \<or>
             (\<exists>e. qrCache st2 (cacheKey c) = Some e \<and> Inr (ce_data e) = storeAnswer c st)"
    using f assms(1) s
    by (auto simp add: fetch_settled_def fetchQRCodeFromDatabase_resume_def
          getQRCodeByCodePublic_resume_def storeAnswer_def Let_def cleanupCache_def
        split: option.splits if_splits)
  have later: "if fst (getQRCodeByCodePublic_call who c later st2) = None
          then storeQueries (snd (getQRCodeByCodePublic_call who c later st2))
                 = storeQueries st @ [c, c]
          else fst (getQRCodeByCodePublic_call who c later st2) = Some (storeAnswer c st)"
  proof (cases "fst (getQRCodeByCodePublic_call who c later st2) = None")
    case True
    then show ?thesis using call_miss [OF True q2] l2 by simp
  next
    case False
    then show ?thesis using c2 by (auto simp add: call_result split: option.splits if_splits)
  qed
  show ?thesis
    using ds q2 l2 later s by (simp add: f)
qed

theorem coalesced_lookups_witness:
  "qrCache sampleState (cacheKey ''A1B2C3D4E5F6'') = None
   \<and> requestQueue sampleState ''A1B2C3D4E5F6'' = None
   \<and> storeQueries (concurrentLookups [(1, 10), (2, 11), (3, 12)] ''A1B2C3D4E5F6'' sampleState)
       = [''A1B2C3D4E5F6'']
   \<and> fst (fetch_settled ''A1B2C3D4E5F6'' 20 21
            (concurrentLookups [(1, 10), (2, 11), (3, 12)] ''A1B2C3D4E5F6'' sampleState))
       = [(1, Inr (projectPublic ''A1B2C3D4E5F6'' sampleRecord)),
          (2, Inr (projectPublic ''A1B2C3D4E5F6'' sampleRecord)),
          (3, Inr (projectPublic ''A1B2C3D4E5F6'' sampleRecord))]
   \<and> requestQueue (snd (fetch_settled ''A1B2C3D4E5F6'' 20 21
            (concurrentLookups [(1, 10), (2, 11), (3, 12)] ''A1B2C3D4E5F6'' sampleState)))
        ''A1B2C3D4E5F6'' = None
   \<and> storeQueries (snd (fetch_settled ''A1B2C3D4E5F6'' 20 21
            (concurrentLookups [(1, 10), (2, 11), (3, 12)] ''A1B2C3D4E5F6'' sampleState)))
       = [''A1B2C3D4E5F6'']"
proof -
  have h: "qrCache sampleState (cacheKey ''A1B2C3D4E5F6'') = None"
          "requestQueue sampleState ''A1B2C3D4E5F6'' = None"
          "[(1::nat, 10::int), (2, 11), (3, 12)] \<noteq> []"
    by (simp_all add: sampleState_def)
  have a: "storeAnswer ''A1B2C3D4E5F6'' sampleState = Inr (projectPublic ''A1B2C3D4E5F6'' sampleRecord)"
    and l: "storeQueries sampleState = []"
    by (simp_all add: storeAnswer_def sampleState_def)
  show ?thesis
    using coalesced_lookups [OF h, of 20 21 4 30] h(1,2) by (simp add: a l)
qed

section \<open>What the public lookup does not show\<close>

lemma projectPublic_hides:
  "projectPublic c (r\<lparr>owner := ow, updateOTP := u, scanHistory := h, scanCount := n, foundBy := f\<rparr>)
     = projectPublic c r"
  by (simp add: projectPublic_def)

text \<open>
  C10. The document of the public lookup is the projection \<open>projectPublic\<close>, which reads
  none of \<open>owner\<close>, \<open>updateOTP\<close>, \<open>scanHistory\<close>, \<open>scanCount\<close> and \<open>foundBy\<close>. Two
  states that differ only in these fields of one stored document give the same result for
  the lookup of any code, from the cache or from the store, and the same cache after it.
\<close>

theorem public_lookup_hides_private_fields:
  "projectPublic c (r\<lparr>owner := ow, updateOTP := u, scanHistory := h, scanCount := n, foundBy := f\<rparr>)
     = projectPublic c r
   \<and> fst (getQRCodeByCodePublic c' now tset tsweep
          (st\<lparr>db := (db st)(c \<mapsto> r\<lparr>owner := ow, updateOTP := u, scanHistory := h,
                                    scanCount := n, foundBy := f\<rparr>)\<rparr>))
     = fst (getQRCodeByCodePublic c' now tset tsweep (st\<lparr>db := (db st)(c \<mapsto> r)\<rparr>))
   \<and> qrCache (snd (getQRCodeByCodePublic c' now tset tsweep
          (st\<lparr>db := (db st)(c \<mapsto> r\<lparr>owner := ow, updateOTP := u, scanHistory := h,
                                    scanCount := n, foundBy := f\<rparr>)\<rparr>)))
     = qrCache (snd (getQRCodeByCodePublic c' now tset tsweep (st\<lparr>db := (db st)(c \<mapsto> r)\<rparr>)))"
  by (auto simp add: getQRCodeByCodePublic_def getQRCodeByCodePublic_call_def
        fetchQRCodeFromDatabase_resume_def fetchQRCodeFromDatabase_query_def
        getQRCodeByCodePublic_resume_def projectPublic_def Let_def
      split: option.splits)

end
